theory Spec2Isabelle
  imports Main "HOL-Library.Word"
begin

unbundle bit_operations_syntax

section \<open>The identifier\<close>

text \<open>
  The class \<^verbatim>\<open>SteamID\<close> of \<^verbatim>\<open>src/SteamID.ts\<close> has one field, \<^verbatim>\<open>data: bigint\<close>.
  A JavaScript BigInt is an integer of arbitrary precision, so the field is an \<open>int\<close>;
  \<^verbatim>\<open>>>\<close>, \<^verbatim>\<open><<\<close>, \<^verbatim>\<open>&\<close>, \<^verbatim>\<open>|\<close> and \<^verbatim>\<open>~\<close> on BigInt are \<open>drop_bit\<close>, \<open>push_bit\<close>,
  \<open>AND\<close>, \<open>OR\<close> and \<open>NOT\<close> on \<open>int\<close> (two's complement of unbounded width).
\<close>

record steamid =
  data :: int

text \<open>Every \<^verbatim>\<open>throw new Error(...)\<close> of the source, by its message, and the
  \<^verbatim>\<open>RangeError\<close> that \<^verbatim>\<open>BigInt(Infinity)\<close> raises.\<close>

datatype error =
    ExceedsUInt32            \<comment> \<open>Provide steamID exceeds max unsigned 32-bit integer.\<close>
  | InvalidSteamID           \<comment> \<open>Provided SteamID is invalid.\<close>
  | OnlyIndividual           \<comment> \<open>This can only be used on individual SteamID.\<close>
  | NotNumeric               \<comment> \<open>Provided SteamID is not numeric.\<close>
  | AccountIDTooHigh         \<comment> \<open>Account id can not be higher than 0xFFFFFFFF.\<close>
  | AccountInstanceTooHigh   \<comment> \<open>Account instance can not be higher than 0xFFFF.\<close>
  | AccountTypeTooHigh       \<comment> \<open>Account type can not be higher than 0xF.\<close>
  | AccountUniverseTooHigh   \<comment> \<open>Account universe can not be higher than 0xFF.\<close>
  | BigIntRangeError         \<comment> \<open>BigInt of a number that is not an integer\<close>

abbreviation (input) UniverseInvalid :: int where "UniverseInvalid \<equiv> 0"
abbreviation (input) UniversePublic :: int where "UniversePublic \<equiv> 1"
abbreviation (input) UniverseDev :: int where "UniverseDev \<equiv> 4"

abbreviation (input) TypeInvalid :: int where "TypeInvalid \<equiv> 0"
abbreviation (input) TypeIndividual :: int where "TypeIndividual \<equiv> 1"
abbreviation (input) TypeMultiseat :: int where "TypeMultiseat \<equiv> 2"
abbreviation (input) TypeGameServer :: int where "TypeGameServer \<equiv> 3"
abbreviation (input) TypeAnonGameServer :: int where "TypeAnonGameServer \<equiv> 4"
abbreviation (input) TypeClan :: int where "TypeClan \<equiv> 7"
abbreviation (input) TypeChat :: int where "TypeChat \<equiv> 8"
abbreviation (input) TypeAnonUser :: int where "TypeAnonUser \<equiv> 10"

abbreviation (input) AllInstances :: int where "AllInstances \<equiv> 0"
abbreviation (input) DesktopInstance :: int where "DesktopInstance \<equiv> 1"

abbreviation (input) InstanceFlagClan :: int where "InstanceFlagClan \<equiv> 524288"
abbreviation (input) InstanceFlagLobby :: int where "InstanceFlagLobby \<equiv> 262144"

text \<open>
  The table of type characters, indexed by the account type. The repository holds a
  second copy of the class in which the entry of index 9 is a blank instead of the empty
  string and the lookup is \<^verbatim>\<open>findIndex\<close> instead of \<^verbatim>\<open>array_search\<close>; both return
  the first index of the character, or \<open>-1\<close>, and the grammar admits neither entry.
\<close>

definition accountTypeChars :: "string list" where
  "accountTypeChars =
     [''I'', ''U'', ''M'', ''G'', ''A'', ''P'', ''C'', ''g'', ''T'', '''', ''a'']"

subsection \<open>The private accessors \<^verbatim>\<open>get\<close> and \<^verbatim>\<open>set\<close>\<close>

text \<open>\<^verbatim>\<open>(this.data >> BigInt(bitOffset)) & BigInt(valueMask)\<close>\<close>

definition get :: "nat \<Rightarrow> int \<Rightarrow> steamid \<Rightarrow> int" where
  "get bitOffset valueMask s = drop_bit bitOffset (data s) AND valueMask"

text \<open>\<^verbatim>\<open>this.data = (this.data & ~(valMask << bOffset)) | ((val & valMask) << bOffset)\<close>\<close>

definition set_field :: "nat \<Rightarrow> int \<Rightarrow> int \<Rightarrow> steamid \<Rightarrow> steamid" where
  "set_field bitOffset valueMask val s =
     s\<lparr>data := (data s AND NOT (push_bit bitOffset valueMask))
                 OR push_bit bitOffset (val AND valueMask)\<rparr>"

subsection \<open>Getters\<close>

definition getAccountID :: "steamid \<Rightarrow> int" where
  "getAccountID s = get 0 4294967295 s"

definition getAccountInstance :: "steamid \<Rightarrow> int" where
  "getAccountInstance s = get 32 1048575 s"

definition getAccountType :: "steamid \<Rightarrow> int" where
  "getAccountType s = get 52 15 s"

definition getAccountUniverse :: "steamid \<Rightarrow> int" where
  "getAccountUniverse s = get 56 255 s"

subsection \<open>Setters\<close>

text \<open>
  Each setter takes the integer that \<^verbatim>\<open>BigInt(value)\<close> yields for its argument, throws
  when that integer is outside the range its guard tests, and otherwise stores the field.
  The guard of \<^verbatim>\<open>setAccountInstance\<close> compares with \<^verbatim>\<open>0xFFFF\<close> (65535) while the mask
  it stores with is 1048575.
\<close>

definition setAccountID :: "int \<Rightarrow> steamid \<Rightarrow> error + steamid" where
  "setAccountID v s =
     (if v < 0 \<or> v > 0xFFFFFFFF then Inl AccountIDTooHigh
      else Inr (set_field 0 4294967295 v s))"

definition setAccountInstance :: "int \<Rightarrow> steamid \<Rightarrow> error + steamid" where
  "setAccountInstance v s =
     (if v < 0 \<or> v > 0xFFFF then Inl AccountInstanceTooHigh
      else Inr (set_field 32 1048575 v s))"

definition setAccountType :: "int \<Rightarrow> steamid \<Rightarrow> error + steamid" where
  "setAccountType v s =
     (if v < 0 \<or> v > 0xF then Inl AccountTypeTooHigh
      else Inr (set_field 52 15 v s))"

definition setAccountUniverse :: "int \<Rightarrow> steamid \<Rightarrow> error + steamid" where
  "setAccountUniverse v s =
     (if v < 0 \<or> v > 0xFF then Inl AccountUniverseTooHigh
      else Inr (set_field 56 255 v s))"

subsection \<open>The validity predicate\<close>

definition isValid :: "steamid \<Rightarrow> bool" where
  "isValid s =
     (let accountType = getAccountType s in
      if accountType \<le> TypeInvalid \<or> accountType > TypeAnonUser then False
      else
        let accountUniverse = getAccountUniverse s in
        if accountUniverse \<le> UniverseInvalid \<or> accountUniverse > UniverseDev then False
        else
          let accountID = getAccountID s; accountInstance = getAccountInstance s in
          if accountType = TypeIndividual \<and> (accountID = 0 \<or> accountInstance \<noteq> 0)
          then False
          else if accountType = TypeClan \<and> (accountID = 0 \<or> accountInstance \<noteq> 0)
          then False
          else if accountType = TypeGameServer \<and> accountID = 0 then False
          else True)"

section \<open>JavaScript values, numerals and strings\<close>

text \<open>
  The constructor and \<^verbatim>\<open>setFromUInt64\<close> take \<^verbatim>\<open>number | bigint | string\<close>.
  \<open>VNumber n\<close> stands for the number whose value is the integer \<open>n\<close> (numbers with a
  fraction, \<^verbatim>\<open>NaN\<close> and the infinities are not modelled), \<open>VBigInt n\<close> for the BigInt
  \<open>n\<close>; \<^verbatim>\<open>null\<close> is \<open>None\<close> at the constructor.
\<close>

datatype jsvalue = VNumber int | VBigInt int | VString string

text \<open>Decimal digits of a natural number, as \<^verbatim>\<open>String\<close> and template literals print
  an integer: most significant digit first, no padding.\<close>

fun digits10 :: "nat \<Rightarrow> string" where
  "digits10 n =
     (if n < 10 then [''0123456789'' ! n]
      else digits10 (n div 10) @ [''0123456789'' ! (n mod 10)])"

declare digits10.simps [simp del]

definition js_string_of_int :: "int \<Rightarrow> string" where
  "js_string_of_int i =
     (if i < 0 then CHR ''-'' # digits10 (nat (- i)) else digits10 (nat i))"

text \<open>\<^verbatim>\<open>bigint.toString(16)\<close>: lowercase hexadecimal digits, no padding.\<close>

fun digits16 :: "nat \<Rightarrow> string" where
  "digits16 n =
     (if n < 16 then [''0123456789abcdef'' ! n]
      else digits16 (n div 16) @ [''0123456789abcdef'' ! (n mod 16)])"

declare digits16.simps [simp del]

definition toString16 :: "int \<Rightarrow> string" where
  "toString16 i =
     (if i < 0 then CHR ''-'' # digits16 (nat (- i)) else digits16 (nat i))"

text \<open>
  \<^verbatim>\<open>value.toString()\<close>. For a string it is the string. For a BigInt it is the decimal
  numeral. For a number it is the decimal numeral as long as the number is below
  \<open>10^21\<close> in magnitude; above, JavaScript prints an exponent form, which like the
  numeral starts with a digit or a minus sign and so matches neither grammar below.
\<close>

fun toString :: "jsvalue \<Rightarrow> string" where
  "toString (VNumber n) = js_string_of_int n"
| "toString (VBigInt n) = js_string_of_int n"
| "toString (VString s) = s"

definition is_digit :: "char \<Rightarrow> bool" where
  "is_digit c = (c \<in> set ''0123456789'')"

definition digit_val :: "char \<Rightarrow> nat" where
  "digit_val c = of_char c - 48"

text \<open>The value of a string of decimal digits: what \<^verbatim>\<open>Number\<close> and \<^verbatim>\<open>BigInt\<close> read
  from a capture group of digits (leading zeros allowed).\<close>

definition dec_value :: "string \<Rightarrow> nat" where
  "dec_value ds = foldl (\<lambda>n c. 10 * n + digit_val c) 0 ds"

text \<open>
  \<^verbatim>\<open>Number(digits)\<close> is a double. Up to \<open>2^53\<close> it is the value itself; above, it is
  the nearest double, and \<^verbatim>\<open>Infinity\<close> from \<open>2^1024 - 2^970\<close> on, which is \<open>None\<close>
  here. The model keeps the exact value of a finite result: its only consumer for long
  numerals is the guard of \<^verbatim>\<open>setAccountInstance\<close>, a comparison with 65535 that
  rounding to the nearest double does not change.
\<close>

definition Number_of_digits :: "string \<Rightarrow> int option" where
  "Number_of_digits ds =
     (let n = dec_value ds in if n \<ge> 2 ^ 1024 - 2 ^ 970 then None else Some (int n))"

text \<open>
  The bitwise operators on numbers work on 32-bit two's complement:
  \<^verbatim>\<open>(accountID << 1) | authServer\<close> converts \<^verbatim>\<open>accountID\<close> with ToInt32, shifts within
  32 bits and reads the result as a signed 32-bit integer.
\<close>

definition js_shl :: "int \<Rightarrow> nat \<Rightarrow> int" where
  "js_shl x n = sint (push_bit n (word_of_int x :: 32 word))"

definition js_or :: "int \<Rightarrow> int \<Rightarrow> int" where
  "js_or x y = sint ((word_of_int x :: 32 word) OR word_of_int y)"

definition js_and :: "int \<Rightarrow> int \<Rightarrow> int" where
  "js_and x y = sint ((word_of_int x :: 32 word) AND word_of_int y)"

section \<open>The three grammars\<close>

text \<open>\<^verbatim>\<open>0|[1-9][0-9]{0,9}\<close>, the \<^verbatim>\<open>id\<close> group of both grammars.\<close>

definition is_id :: "string \<Rightarrow> bool" where
  "is_id ds =
     (ds = ''0'' \<or>
      (case ds of [] \<Rightarrow> False
       | c # cs \<Rightarrow> c \<in> set ''123456789'' \<and> list_all is_digit cs \<and> length cs \<le> 9))"

text \<open>
  \<^verbatim>\<open>/^STEAM_(?<universe>[0-4]):(?<authServer>[0-1]):(?<id>0|[1-9][0-9]{0,9})$/\<close>;
  the result holds the three groups.
\<close>

definition match_steam2 :: "string \<Rightarrow> (char \<times> char \<times> string) option" where
  "match_steam2 s =
     (case s of
        c1 # c2 # c3 # c4 # c5 # c6 # u # k1 # a # k2 # ds \<Rightarrow>
          if [c1, c2, c3, c4, c5, c6] = ''STEAM_'' \<and> u \<in> set ''01234'' \<and>
             k1 = CHR '':'' \<and> a \<in> set ''01'' \<and> k2 = CHR '':'' \<and> is_id ds
          then Some (u, a, ds) else None
      | _ \<Rightarrow> None)"

text \<open>
  \<^verbatim>\<open>/^\[(?<type>[AGMPCgcLTIUai]):(?<universe>[0-4]):(?<id>0|[1-9][0-9]{0,9})(?:\:(?<instance>[0-9]+))?\]$/\<close>.
  The \<^verbatim>\<open>id\<close> group is followed by \<^verbatim>\<open>:\<close> or \<^verbatim>\<open>]\<close>, so it is the whole run of digits
  after the second colon, and likewise the \<^verbatim>\<open>instance\<close> group.
\<close>

definition match_steam3 :: "string \<Rightarrow> (char \<times> char \<times> string \<times> string option) option" where
  "match_steam3 s =
     (case s of
        b # t # k1 # u # k2 # rest \<Rightarrow>
          let ds = takeWhile is_digit rest; after = dropWhile is_digit rest in
          if b = CHR ''['' \<and> t \<in> set ''AGMPCgcLTIUai'' \<and> k1 = CHR '':'' \<and>
             u \<in> set ''01234'' \<and> k2 = CHR '':'' \<and> is_id ds
          then
            (if after = '']'' then Some (t, u, ds, None)
             else
               (case after of
                  [] \<Rightarrow> None
                | k3 # rest2 \<Rightarrow>
                    let inst = takeWhile is_digit rest2 in
                    if k3 = CHR '':'' \<and> inst \<noteq> [] \<and> dropWhile is_digit rest2 = '']''
                    then Some (t, u, ds, Some inst) else None))
          else None
      | _ \<Rightarrow> None)"

text \<open>\<^verbatim>\<open>/^[1-9][0-9]{0,19}$/\<close>\<close>

definition match_numeric :: "string \<Rightarrow> bool" where
  "match_numeric n =
     (case n of [] \<Rightarrow> False
      | c # cs \<Rightarrow> c \<in> set ''123456789'' \<and> list_all is_digit cs \<and> length cs \<le> 19)"

fun isNumeric :: "jsvalue \<Rightarrow> bool" where
  "isNumeric (VNumber n) = (n > 0)"
| "isNumeric (VBigInt n) = (n > 0)"
| "isNumeric (VString s) = match_numeric s"

text \<open>\<^verbatim>\<open>BigInt(value)\<close>, called only after \<^verbatim>\<open>isNumeric(value)\<close> holds: on a string
  it then reads a decimal numeral.\<close>

fun BigInt :: "jsvalue \<Rightarrow> int" where
  "BigInt (VNumber n) = n"
| "BigInt (VBigInt n) = n"
| "BigInt (VString s) = int (dec_value s)"

section \<open>Construction\<close>

text \<open>A \<^verbatim>\<open>throw\<close> ends the constructor: the setters are chained, the first error wins.\<close>

definition andThen :: "error + 'a \<Rightarrow> ('a \<Rightarrow> error + 'b) \<Rightarrow> error + 'b" where
  "andThen r f = (case r of Inl e \<Rightarrow> Inl e | Inr x \<Rightarrow> f x)"

text \<open>The loop of \<^verbatim>\<open>array_search\<close>: the first index holding the needle, or \<open>-1\<close>.\<close>

fun array_search_from :: "nat \<Rightarrow> string \<Rightarrow> string list \<Rightarrow> int" where
  "array_search_from i needle [] = - 1"
| "array_search_from i needle (h # hs) =
     (if needle = h then int i else array_search_from (Suc i) needle hs)"

definition array_search :: "string \<Rightarrow> string list \<Rightarrow> int" where
  "array_search needle haystack = array_search_from 0 needle haystack"

text \<open>The branch of the constructor taken on a match of the legacy grammar.\<close>

definition construct_steam2 :: "char \<Rightarrow> char \<Rightarrow> string \<Rightarrow> error + steamid" where
  "construct_steam2 universe_g authServer_g id_g =
     (let accountID = int (dec_value id_g) in
      if accountID \<ge> 4294967295 then Inl ExceedsUInt32
      else
        let universe = int (dec_value [universe_g]);
            universe = (if universe = UniverseInvalid then UniversePublic else universe);
            authServer = int (dec_value [authServer_g]);
            accountID = js_or (js_shl accountID 1) authServer
        in
          andThen (setAccountUniverse universe \<lparr>data = 0\<rparr>) (\<lambda>s.
          andThen (setAccountInstance DesktopInstance s) (\<lambda>s.
          andThen (setAccountType TypeIndividual s) (\<lambda>s.
          setAccountID accountID s))))"

text \<open>
  The branch taken on a match of the bracketed grammar. \<open>instanceID\<close> is \<open>None\<close> when
  \<^verbatim>\<open>Number\<close> of the instance group is \<^verbatim>\<open>Infinity\<close>, on which the \<^verbatim>\<open>BigInt(value)\<close> of
  the guard of \<^verbatim>\<open>setAccountInstance\<close> raises a RangeError.
\<close>

definition construct_steam3 ::
    "char \<Rightarrow> char \<Rightarrow> string \<Rightarrow> string option \<Rightarrow> error + steamid" where
  "construct_steam3 type_g universe_g id_g instance_g =
     (let accountID = int (dec_value id_g) in
      if accountID \<ge> 4294967295 then Inl ExceedsUInt32
      else
        let type = (if type_g = CHR ''i'' then CHR ''I'' else type_g);
            instanceID =
              (if type = CHR ''T'' \<or> type = CHR ''g'' then Some AllInstances
               else
                 (case instance_g of
                    Some ds \<Rightarrow> Number_of_digits ds
                  | None \<Rightarrow>
                      if type = CHR ''U'' then Some DesktopInstance else Some AllInstances));
            (instanceID, typed) =
              (if type = CHR ''c'' then (Some InstanceFlagClan, Inr \<lparr>data = 0\<rparr>)
               else if type = CHR ''L'' then (Some InstanceFlagClan, Inr \<lparr>data = 0\<rparr>)
               else
                 (instanceID,
                  setAccountType (array_search [type] accountTypeChars) \<lparr>data = 0\<rparr>))
        in
          andThen typed (\<lambda>s.
          andThen (setAccountUniverse (int (dec_value [universe_g])) s) (\<lambda>s.
          andThen
            (case instanceID of
               None \<Rightarrow> Inl BigIntRangeError
             | Some i \<Rightarrow> setAccountInstance i s) (\<lambda>s.
          setAccountID accountID s))))"

text \<open>\<^verbatim>\<open>new SteamID(value)\<close>: the legacy grammar first, then the bracketed one, then
  the plain numeric check.\<close>

definition construct :: "jsvalue option \<Rightarrow> error + steamid" where
  "construct val =
     (case val of
        None \<Rightarrow> Inr \<lparr>data = 0\<rparr>
      | Some v \<Rightarrow>
          (case match_steam2 (toString v) of
             Some (u, a, i) \<Rightarrow> construct_steam2 u a i
           | None \<Rightarrow>
               (case match_steam3 (toString v) of
                  Some (t, u, i, inst) \<Rightarrow> construct_steam3 t u i inst
                | None \<Rightarrow>
                    if isNumeric v then Inr \<lparr>data = BigInt v\<rparr>
                    else Inl InvalidSteamID)))"

definition setFromUInt64 :: "jsvalue \<Rightarrow> steamid \<Rightarrow> error + steamid" where
  "setFromUInt64 v s =
     (if isNumeric v then Inr (s\<lparr>data := BigInt v\<rparr>) else Inl NotNumeric)"

section \<open>Rendering\<close>

definition convertToUInt64 :: "steamid \<Rightarrow> string" where
  "convertToUInt64 s = js_string_of_int (data s)"

definition renderSteam2 :: "steamid \<Rightarrow> string" where
  "renderSteam2 s =
     (if getAccountType s = TypeInvalid \<or> getAccountType s = TypeIndividual then
        let universe = getAccountUniverse s; accountID = getAccountID s in
        ''STEAM_'' @ js_string_of_int universe @ '':'' @
        js_string_of_int (accountID AND 1) @ '':'' @
        js_string_of_int (drop_bit 1 accountID)
      else js_string_of_int (data s))"

text \<open>\<^verbatim>\<open>this.accountTypeChars[accountType] ?? "i"\<close>: an index past the table gives
  \<^verbatim>\<open>undefined\<close>, hence \<^verbatim>\<open>"i"\<close>. The account type is a 4-bit field, never negative.\<close>

definition renderSteam3 :: "steamid \<Rightarrow> string" where
  "renderSteam3 s =
     (let accountInstance = getAccountInstance s;
          accountType = getAccountType s;
          accountTypeChar =
            (if nat accountType < length accountTypeChars
             then accountTypeChars ! nat accountType else ''i'');
          accountTypeChar =
            (if accountType = TypeChat then
               (if js_and accountInstance InstanceFlagClan \<noteq> 0 then ''c''
                else if js_and accountInstance InstanceFlagLobby \<noteq> 0 then ''L''
                else accountTypeChar)
             else accountTypeChar);
          renderInstance =
            (accountType = TypeAnonGameServer \<or> accountType = TypeMultiseat);
          ret = ''['' @ accountTypeChar @ '':'' @
                js_string_of_int (getAccountUniverse s) @ '':'' @
                js_string_of_int (getAccountID s);
          ret = (if renderInstance then ret @ '':'' @ js_string_of_int accountInstance
                 else ret)
      in ret @ '']'')"

text \<open>The \<^verbatim>\<open>switch\<close> of \<^verbatim>\<open>replace\<close>: a character outside the sixteen cases adds nothing.\<close>

definition replace_char :: "char \<Rightarrow> string" where
  "replace_char c =
     (if c = CHR ''0'' then ''b'' else if c = CHR ''1'' then ''c''
      else if c = CHR ''2'' then ''d'' else if c = CHR ''3'' then ''f''
      else if c = CHR ''4'' then ''g'' else if c = CHR ''5'' then ''h''
      else if c = CHR ''6'' then ''j'' else if c = CHR ''7'' then ''k''
      else if c = CHR ''8'' then ''m'' else if c = CHR ''9'' then ''n''
      else if c = CHR ''a'' then ''p'' else if c = CHR ''b'' then ''q''
      else if c = CHR ''c'' then ''e'' else if c = CHR ''d'' then ''t''
      else if c = CHR ''e'' then ''v'' else if c = CHR ''f'' then ''w''
      else [])"

definition replace :: "string \<Rightarrow> string" where
  "replace str = foldl (\<lambda>r c. r @ replace_char c) [] str"

text \<open>
  \<^verbatim>\<open>const offset = length / 2\<close> is a division of numbers, \<open>2.5\<close> for a length of 5;
  \<^verbatim>\<open>substring\<close> truncates its arguments to integers, so both calls cut at
  \<open>length div 2\<close>.
\<close>

definition renderSteamInvite :: "steamid \<Rightarrow> error + string" where
  "renderSteamInvite s =
     (if getAccountType s = TypeInvalid \<or> getAccountType s = TypeIndividual then
        let code = toString16 (getAccountID s);
            code = replace code;
            len = length code
        in
          if len > 3 then
            let offset = len div 2 in Inr (take offset code @ ''-'' @ drop offset code)
          else Inr code
      else Inl OnlyIndividual)"

section \<open>Notions of the specification\<close>

text \<open>The packed value is representable as an unsigned 64-bit quantity.\<close>

definition fits_uint64 :: "steamid \<Rightarrow> bool" where
  "fits_uint64 s = (0 \<le> data s \<and> data s < 2 ^ 64)"

text \<open>
  The invite code in the words of the specification: the hexadecimal digits of the
  account number, most significant first and without padding, each replaced through
  the table \<open>0\<rightarrow>b, 1\<rightarrow>c, 2\<rightarrow>d, 3\<rightarrow>f, 4\<rightarrow>g, 5\<rightarrow>h, 6\<rightarrow>j, 7\<rightarrow>k, 8\<rightarrow>m, 9\<rightarrow>n, a\<rightarrow>p,
  b\<rightarrow>q, c\<rightarrow>e, d\<rightarrow>t, e\<rightarrow>v, f\<rightarrow>w\<close> (the table indexed by the digit's value), and a hyphen
  after position \<open>length div 2\<close> when there are more than three symbols.
\<close>

fun hex_digits :: "nat \<Rightarrow> nat list" where
  "hex_digits n = (if n < 16 then [n] else hex_digits (n div 16) @ [n mod 16])"

declare hex_digits.simps [simp del]

definition invite_alphabet :: string where
  "invite_alphabet = ''bcdfghjkmnpqetvw''"

definition hyphenate :: "string \<Rightarrow> string" where
  "hyphenate code =
     (if length code > 3
      then take (length code div 2) code @ ''-'' @ drop (length code div 2) code
      else code)"

definition spec_invite_code :: "nat \<Rightarrow> string" where
  "spec_invite_code n = hyphenate (map (\<lambda>d. invite_alphabet ! d) (hex_digits n))"

text \<open>
  The legacy string \<^verbatim>\<open>STEAM_{u}:{a&1}:{a>>1}\<close> of the round-trip property, for a
  universe \<open>u\<close> and an account number \<open>a\<close>, and the identifier the constructor builds
  from it when all four setters succeed: universe \<open>u\<close>, instance Desktop, type
  Individual, account number \<open>a\<close>.
\<close>

definition legacy_string :: "nat \<Rightarrow> nat \<Rightarrow> string" where
  "legacy_string u a =
     ''STEAM_'' @ digits10 u @ '':'' @ digits10 (a mod 2) @ '':'' @ digits10 (a div 2)"

definition legacy_state :: "nat \<Rightarrow> nat \<Rightarrow> steamid" where
  "legacy_state u a =
     set_field 0 4294967295 (int a) (set_field 52 15 1 (set_field 32 1048575 1
       (set_field 56 255 (int u) \<lparr>data = 0\<rparr>)))"

section \<open>Evaluation and bit-level lemmas\<close>

lemmas getter_defs =
  getAccountID_def getAccountInstance_def getAccountType_def getAccountUniverse_def

lemmas setter_defs =
  setAccountID_def setAccountInstance_def setAccountType_def setAccountUniverse_def

lemmas parse_defs =
  match_steam2_def match_steam3_def match_numeric_def is_id_def is_digit_def
  dec_value_def digit_val_def Number_of_digits_def

lemmas construct_defs =
  construct_def construct_steam2_def construct_steam3_def andThen_def
  array_search_def accountTypeChars_def js_or_def js_shl_def set_field_def

lemma mask_numerals:
  "(4294967295::int) = mask 32" "(1048575::int) = mask 20"
  "(15::int) = mask 4" "(255::int) = mask 8"
  by (simp_all add: mask_eq_exp_minus_1)

text \<open>A field read after a write to a field that does not overlap it is unchanged.\<close>

lemma get_set_field_other:
  "o2 + k2 \<le> o1 \<or> o1 + k1 \<le> o2 \<Longrightarrow>
   get o2 (mask k2) (set_field o1 (mask k1) v s) = get o2 (mask k2) s"
  unfolding get_def set_field_def
  by (auto simp add: bit_eq_iff bit_simps)

lemma get_set_field_same:
  "get o1 (mask k1) (set_field o1 (mask k1) v s) = v AND mask k1"
  unfolding get_def set_field_def
  by (auto simp add: bit_eq_iff bit_simps)

lemma setAccountID_frame:
  "setAccountID v s = Inr s' \<Longrightarrow>
     getAccountInstance s' = getAccountInstance s \<and>
     getAccountType s' = getAccountType s \<and>
     getAccountUniverse s' = getAccountUniverse s"
  unfolding getter_defs setAccountID_def mask_numerals
  by (auto simp add: get_set_field_other split: if_splits)

lemma setAccountInstance_frame:
  "setAccountInstance v s = Inr s' \<Longrightarrow>
     getAccountID s' = getAccountID s \<and>
     getAccountType s' = getAccountType s \<and>
     getAccountUniverse s' = getAccountUniverse s"
  unfolding getter_defs setAccountInstance_def mask_numerals
  by (auto simp add: get_set_field_other split: if_splits)

lemma setAccountType_frame:
  "setAccountType v s = Inr s' \<Longrightarrow>
     getAccountID s' = getAccountID s \<and>
     getAccountInstance s' = getAccountInstance s \<and>
     getAccountUniverse s' = getAccountUniverse s"
  unfolding getter_defs setAccountType_def mask_numerals
  by (auto simp add: get_set_field_other split: if_splits)

lemma setAccountUniverse_frame:
  "setAccountUniverse v s = Inr s' \<Longrightarrow>
     getAccountID s' = getAccountID s \<and>
     getAccountInstance s' = getAccountInstance s \<and>
     getAccountType s' = getAccountType s"
  unfolding getter_defs setAccountUniverse_def mask_numerals
  by (auto simp add: get_set_field_other split: if_splits)

text \<open>The three identifiers of the examples: \<^verbatim>\<open>[U:1:1]\<close>, \<^verbatim>\<open>[U:1:1:0]\<close> and
  \<^verbatim>\<open>76561197960287930\<close>.\<close>

lemma construct_null: "construct None = Inr \<lparr>data = 0\<rparr>"
  by (simp add: construct_def)

lemma construct_U_1_1:
  "construct (Some (VString ''[U:1:1]'')) = Inr \<lparr>data = 76561197960265729\<rparr>"
  by (simp add: construct_defs parse_defs setter_defs)

lemma construct_U_1_1_0:
  "construct (Some (VString ''[U:1:1:0]'')) = Inr \<lparr>data = 76561193665298433\<rparr>"
  by (simp add: construct_defs parse_defs setter_defs)

lemma fields_U_1_1:
  "getAccountType \<lparr>data = 76561197960265729\<rparr> = 1"
  "getAccountUniverse \<lparr>data = 76561197960265729\<rparr> = 1"
  "getAccountID \<lparr>data = 76561197960265729\<rparr> = 1"
  "getAccountInstance \<lparr>data = 76561197960265729\<rparr> = 1"
  by (simp_all add: getter_defs get_def)

lemma fields_U_1_1_0:
  "getAccountType \<lparr>data = 76561193665298433\<rparr> = 1"
  "getAccountUniverse \<lparr>data = 76561193665298433\<rparr> = 1"
  "getAccountID \<lparr>data = 76561193665298433\<rparr> = 1"
  "getAccountInstance \<lparr>data = 76561193665298433\<rparr> = 0"
  by (simp_all add: getter_defs get_def)

lemma fields_gaben:
  "getAccountType \<lparr>data = 76561197960287930\<rparr> = 1"
  "getAccountUniverse \<lparr>data = 76561197960287930\<rparr> = 1"
  "getAccountID \<lparr>data = 76561197960287930\<rparr> = 22202"
  "getAccountInstance \<lparr>data = 76561197960287930\<rparr> = 1"
  by (simp_all add: getter_defs get_def)

lemma fields_empty:
  "getAccountType \<lparr>data = 0\<rparr> = 0"
  "getAccountUniverse \<lparr>data = 0\<rparr> = 0"
  "getAccountID \<lparr>data = 0\<rparr> = 0"
  "getAccountInstance \<lparr>data = 0\<rparr> = 0"
  by (simp_all add: getter_defs get_def)

lemma isValid_empty: "\<not> isValid \<lparr>data = 0\<rparr>"
  by (simp add: isValid_def fields_empty)

lemma isValid_U_1_1: "\<not> isValid \<lparr>data = 76561197960265729\<rparr>"
  by (simp add: isValid_def fields_U_1_1)

lemma isValid_U_1_1_0: "isValid \<lparr>data = 76561193665298433\<rparr>"
  by (simp add: isValid_def fields_U_1_1_0)

section \<open>The setters' guards\<close>

text \<open>
  C1. The claim: \<^verbatim>\<open>setAccountInstance\<close> succeeds exactly on \<open>0 \<le> v \<le> 0xFFFFF\<close>, the
  width of the instance field, and so accepts every \<open>v\<close> with \<open>0xFFFF < v \<le> 0xFFFFF\<close>.
  The code does not: its guard compares with \<open>0xFFFF\<close>, so the setter throws exactly
  when \<open>v < 0\<close> or \<open>65535 < v\<close>; it throws on 65536, on the Clan flag 524288 and on the
  mask 1048575 itself, and 65535 is the largest value it stores.
\<close>

theorem setAccountInstance_guard_is_0xFFFF:
  "(setAccountInstance v s = Inl AccountInstanceTooHigh) = (v < 0 \<or> 65535 < v) \<and>
   setAccountInstance 65536 \<lparr>data = 0\<rparr> = Inl AccountInstanceTooHigh \<and>
   setAccountInstance 524288 \<lparr>data = 0\<rparr> = Inl AccountInstanceTooHigh \<and>
   setAccountInstance 1048575 \<lparr>data = 0\<rparr> = Inl AccountInstanceTooHigh \<and>
   setAccountInstance 65535 \<lparr>data = 0\<rparr> = Inr \<lparr>data = 281470681743360\<rparr>"
  by (simp add: setAccountInstance_def set_field_def)

text \<open>
  C6, as the claim states it, fails: the setter of the account number accepts
  \<open>0xFFFFFFFF\<close>, its guard being \<^verbatim>\<open>BigInt(value) > 0xFFFFFFFF\<close>.
\<close>

theorem setAccountID_0xFFFFFFFF_accepted:
  "setAccountID 0xFFFFFFFF \<lparr>data = 0\<rparr> = Inr \<lparr>data = 4294967295\<rparr>"
  by (simp add: setAccountID_def set_field_def)

text \<open>
  C6, amended. Calling the account-number setter with exactly \<open>0xFFFFFFFF\<close> succeeds and
  stores that number, as calling it with \<open>0xFFFFFFFE\<close> does; the setter fails with its
  out-of-range error on \<open>0x100000000\<close> and on every larger value.
\<close>

theorem setAccountID_boundary:
  "setAccountID 0xFFFFFFFF s = Inr (set_field 0 4294967295 0xFFFFFFFF s) \<and>
   getAccountID (set_field 0 4294967295 0xFFFFFFFF s) = 0xFFFFFFFF \<and>
   setAccountID 0xFFFFFFFE s = Inr (set_field 0 4294967295 0xFFFFFFFE s) \<and>
   getAccountID (set_field 0 4294967295 0xFFFFFFFE s) = 0xFFFFFFFE \<and>
   setAccountID (0x100000000 + int n) s = Inl AccountIDTooHigh"
proof -
  have "getAccountID (set_field 0 4294967295 v s) = v AND mask 32" for v
    unfolding getAccountID_def mask_numerals by (rule get_set_field_same)
  then show ?thesis
    by (simp add: setAccountID_def mask_eq_exp_minus_1)
qed

text \<open>
  C7. For every identifier state (any packed value) and each of the four fields,
  a successful call of that field's setter leaves the results of the other three
  getters unchanged.
\<close>

theorem field_isolation:
  "(setAccountID v1 s = Inr s1 \<longrightarrow>
      getAccountInstance s1 = getAccountInstance s \<and>
      getAccountType s1 = getAccountType s \<and>
      getAccountUniverse s1 = getAccountUniverse s) \<and>
   (setAccountInstance v2 s = Inr s2 \<longrightarrow>
      getAccountID s2 = getAccountID s \<and>
      getAccountType s2 = getAccountType s \<and>
      getAccountUniverse s2 = getAccountUniverse s) \<and>
   (setAccountType v3 s = Inr s3 \<longrightarrow>
      getAccountID s3 = getAccountID s \<and>
      getAccountInstance s3 = getAccountInstance s \<and>
      getAccountUniverse s3 = getAccountUniverse s) \<and>
   (setAccountUniverse v4 s = Inr s4 \<longrightarrow>
      getAccountID s4 = getAccountID s \<and>
      getAccountInstance s4 = getAccountInstance s \<and>
      getAccountType s4 = getAccountType s)"
  using setAccountID_frame [of v1 s s1] setAccountInstance_frame [of v2 s s2]
    setAccountType_frame [of v3 s s3] setAccountUniverse_frame [of v4 s s4]
  by blast

theorem field_isolation_witness:
  "setAccountID 5 \<lparr>data = 76561197960287930\<rparr> = Inr \<lparr>data = 76561197960265733\<rparr> \<and>
   getAccountInstance \<lparr>data = 76561197960265733\<rparr> = 1 \<and>
   getAccountType \<lparr>data = 76561197960265733\<rparr> = 1 \<and>
   getAccountUniverse \<lparr>data = 76561197960265733\<rparr> = 1 \<and>
   setAccountInstance 4 \<lparr>data = 76561197960287930\<rparr> = Inr \<lparr>data = 76561210845189818\<rparr> \<and>
   getAccountID \<lparr>data = 76561210845189818\<rparr> = 22202 \<and>
   getAccountType \<lparr>data = 76561210845189818\<rparr> = 1 \<and>
   getAccountUniverse \<lparr>data = 76561210845189818\<rparr> = 1 \<and>
   setAccountType 7 \<lparr>data = 76561197960287930\<rparr> = Inr \<lparr>data = 103582795724510906\<rparr> \<and>
   getAccountID \<lparr>data = 103582795724510906\<rparr> = 22202 \<and>
   getAccountInstance \<lparr>data = 103582795724510906\<rparr> = 1 \<and>
   getAccountUniverse \<lparr>data = 103582795724510906\<rparr> = 1 \<and>
   setAccountUniverse 2 \<lparr>data = 76561197960287930\<rparr> = Inr \<lparr>data = 148618791998215866\<rparr> \<and>
   getAccountID \<lparr>data = 148618791998215866\<rparr> = 22202 \<and>
   getAccountInstance \<lparr>data = 148618791998215866\<rparr> = 1 \<and>
   getAccountType \<lparr>data = 148618791998215866\<rparr> = 1"
proof -
  have 1: "setAccountID 5 \<lparr>data = 76561197960287930\<rparr> = Inr \<lparr>data = 76561197960265733\<rparr>"
    by (simp add: setAccountID_def set_field_def)
  have 2: "setAccountInstance 4 \<lparr>data = 76561197960287930\<rparr> = Inr \<lparr>data = 76561210845189818\<rparr>"
    by (simp add: setAccountInstance_def set_field_def)
  have 3: "setAccountType 7 \<lparr>data = 76561197960287930\<rparr> = Inr \<lparr>data = 103582795724510906\<rparr>"
    by (simp add: setAccountType_def set_field_def)
  have 4: "setAccountUniverse 2 \<lparr>data = 76561197960287930\<rparr> = Inr \<lparr>data = 148618791998215866\<rparr>"
    by (simp add: setAccountUniverse_def set_field_def)
  show ?thesis
    using field_isolation [where s = "\<lparr>data = 76561197960287930\<rparr>"
        and ?v1.0 = 5 and ?s1.0 = "\<lparr>data = 76561197960265733\<rparr>"
        and ?v2.0 = 4 and ?s2.0 = "\<lparr>data = 76561210845189818\<rparr>"
        and ?v3.0 = 7 and ?s3.0 = "\<lparr>data = 103582795724510906\<rparr>"
        and ?v4.0 = 2 and ?s4.0 = "\<lparr>data = 148618791998215866\<rparr>"]
    by (simp add: 1 2 3 4 fields_gaben)
qed

section \<open>Construction from the bracketed grammar and validity\<close>

text \<open>
  C2. The claim: every bracketed input with type character \<^verbatim>\<open>c\<close> or \<^verbatim>\<open>L\<close>, such as
  \<^verbatim>\<open>[c:1:4]\<close>, is constructed, with instance \<open>0x80000\<close>. The code resolves the instance to
  \<^verbatim>\<open>InstanceFlagClan\<close> and hands it to \<^verbatim>\<open>setAccountInstance\<close>, whose guard rejects
  every value above \<open>0xFFFF\<close>: the constructor throws on \<^verbatim>\<open>[c:1:4]\<close>, on \<^verbatim>\<open>[L:1:4]\<close>
  and on \<^verbatim>\<open>[c:1:4:7]\<close>.
\<close>

theorem construct_clan_chat_throws:
  "construct (Some (VString ''[c:1:4]'')) = Inl AccountInstanceTooHigh \<and>
   construct (Some (VString ''[L:1:4]'')) = Inl AccountInstanceTooHigh \<and>
   construct (Some (VString ''[c:1:4:7]'')) = Inl AccountInstanceTooHigh"
  by (simp add: construct_defs parse_defs setter_defs)

text \<open>
  C3, as the claim states it, fails: the identifier constructed from \<^verbatim>\<open>[U:1:1]\<close> is
  not valid. The constructor gives type \<^verbatim>\<open>U\<close> without an instance segment the Desktop
  instance 1, and \<^verbatim>\<open>isValid\<close> rejects an Individual whose instance is not 0.
\<close>

theorem isValid_U_1_1_false:
  "construct (Some (VString ''[U:1:1]'')) = Inr \<lparr>data = 76561197960265729\<rparr> \<and>
   \<not> isValid \<lparr>data = 76561197960265729\<rparr>"
  by (simp add: construct_U_1_1 isValid_U_1_1)

text \<open>
  C3, amended. \<^verbatim>\<open>isValid()\<close> returns false for an identifier constructed with no input
  (all fields zero), and false as well for the identifier constructed from \<^verbatim>\<open>[U:1:1]\<close>,
  whose instance is Desktop (1); it returns true for the identifier constructed from
  \<^verbatim>\<open>[U:1:1:0]\<close> (Individual, universe Public, account 1, instance 0).
\<close>

theorem isValid_examples:
  "construct None = Inr \<lparr>data = 0\<rparr> \<and> \<not> isValid \<lparr>data = 0\<rparr> \<and>
   construct (Some (VString ''[U:1:1]'')) = Inr \<lparr>data = 76561197960265729\<rparr> \<and>
   getAccountInstance \<lparr>data = 76561197960265729\<rparr> = DesktopInstance \<and>
   \<not> isValid \<lparr>data = 76561197960265729\<rparr> \<and>
   construct (Some (VString ''[U:1:1:0]'')) = Inr \<lparr>data = 76561193665298433\<rparr> \<and>
   getAccountType \<lparr>data = 76561193665298433\<rparr> = TypeIndividual \<and>
   getAccountUniverse \<lparr>data = 76561193665298433\<rparr> = UniversePublic \<and>
   getAccountID \<lparr>data = 76561193665298433\<rparr> = 1 \<and>
   getAccountInstance \<lparr>data = 76561193665298433\<rparr> = 0 \<and>
   isValid \<lparr>data = 76561193665298433\<rparr>"
  by (simp add: construct_null construct_U_1_1 construct_U_1_1_0 isValid_empty
      isValid_U_1_1 isValid_U_1_1_0 fields_U_1_1 fields_U_1_1_0)

section \<open>The plain numeric input\<close>

text \<open>
  C9. Constructing from the plain numeric string \<^verbatim>\<open>76561197960287930\<close> succeeds; the
  legacy render of the result is \<^verbatim>\<open>STEAM_1:0:11101\<close> and its bracketed render is
  \<^verbatim>\<open>[U:1:22202]\<close>.
\<close>

theorem numeric_76561197960287930_renders:
  "construct (Some (VString ''76561197960287930'')) = Inr \<lparr>data = 76561197960287930\<rparr> \<and>
   renderSteam2 \<lparr>data = 76561197960287930\<rparr> = ''STEAM_1:0:11101'' \<and>
   renderSteam3 \<lparr>data = 76561197960287930\<rparr> = ''[U:1:22202]''"
proof -
  have "construct (Some (VString ''76561197960287930'')) = Inr \<lparr>data = 76561197960287930\<rparr>"
    by (simp add: construct_def parse_defs)
  moreover have "renderSteam2 \<lparr>data = 76561197960287930\<rparr> = ''STEAM_1:0:11101''"
    by (simp add: renderSteam2_def fields_gaben js_string_of_int_def digits10.simps)
  moreover have "renderSteam3 \<lparr>data = 76561197960287930\<rparr> = ''[U:1:22202]''"
    by (simp add: renderSteam3_def fields_gaben js_string_of_int_def digits10.simps
        accountTypeChars_def)
  ultimately show ?thesis by simp
qed

text \<open>
  C10. The plain numeric check rejects zero. Constructing from the string \<^verbatim>\<open>0\<close>, from
  the number \<open>0\<close> or from the BigInt \<open>0\<close> fails with the invalid-identifier error, and
  \<^verbatim>\<open>setFromUInt64\<close> on each of them fails with the not-numeric error, although \<open>0\<close> is
  the packed value of the identifier constructed with no input; the plain numeric render
  of that identifier is \<^verbatim>\<open>0\<close>, and constructing from it fails.
\<close>

theorem zero_is_not_numeric:
  "construct (Some (VString ''0'')) = Inl InvalidSteamID \<and>
   construct (Some (VNumber 0)) = Inl InvalidSteamID \<and>
   construct (Some (VBigInt 0)) = Inl InvalidSteamID \<and>
   setFromUInt64 (VString ''0'') s = Inl NotNumeric \<and>
   setFromUInt64 (VNumber 0) s = Inl NotNumeric \<and>
   setFromUInt64 (VBigInt 0) s = Inl NotNumeric \<and>
   construct None = Inr \<lparr>data = 0\<rparr> \<and>
   convertToUInt64 \<lparr>data = 0\<rparr> = ''0'' \<and>
   construct (Some (VString (convertToUInt64 \<lparr>data = 0\<rparr>))) = Inl InvalidSteamID"
proof -
  have r: "convertToUInt64 \<lparr>data = 0\<rparr> = ''0''"
    by (simp add: convertToUInt64_def js_string_of_int_def digits10.simps)
  have s: "construct (Some (VString ''0'')) = Inl InvalidSteamID"
    by (simp add: construct_def parse_defs)
  have n: "js_string_of_int 0 = ''0''"
    by (simp add: js_string_of_int_def digits10.simps)
  have "construct (Some (VNumber 0)) = Inl InvalidSteamID"
    "construct (Some (VBigInt 0)) = Inl InvalidSteamID"
    by (simp_all add: construct_def n parse_defs)
  then show ?thesis
    by (simp add: r s construct_null setFromUInt64_def match_numeric_def)
qed

section \<open>The invite code\<close>

lemma replace_concat: "foldl (\<lambda>r c. r @ replace_char c) acc str = acc @ concat (map replace_char str)"
  by (induction str arbitrary: acc) simp_all

lemma replace_map: "replace str = concat (map replace_char str)"
  by (simp add: replace_def replace_concat)

lemma hex_digits_less: "d \<in> set (hex_digits n) \<Longrightarrow> d < 16"
proof (induction n rule: hex_digits.induct)
  case (1 n)
  show ?case
  proof (cases "n < 16")
    case True
    with "1.prems" show ?thesis by (simp add: hex_digits.simps [of n])
  next
    case False
    with "1.prems" "1.IH" show ?thesis by (auto simp add: hex_digits.simps [of n])
  qed
qed

text \<open>\<open>hex_digits\<close> is the base-16 representation: it has the value \<open>n\<close> and, for
  \<open>n > 0\<close>, no leading zero.\<close>

lemma hex_digits_value: "foldl (\<lambda>a d. 16 * a + d) 0 (hex_digits n) = n"
proof (induction n rule: hex_digits.induct)
  case (1 n)
  show ?case
  proof (cases "n < 16")
    case True
    then show ?thesis by (simp add: hex_digits.simps [of n])
  next
    case False
    with "1.IH" show ?thesis by (simp add: hex_digits.simps [of n])
  qed
qed

lemma hex_digits_unpadded: "0 < n \<Longrightarrow> hex_digits n \<noteq> [] \<and> hd (hex_digits n) \<noteq> 0"
proof (induction n rule: hex_digits.induct)
  case (1 n)
  show ?case
  proof (cases "n < 16")
    case True
    with "1.prems" show ?thesis by (simp add: hex_digits.simps [of n])
  next
    case False
    then have "0 < n div 16" by simp
    with False "1.IH" show ?thesis by (simp add: hex_digits.simps [of n])
  qed
qed

lemma digits16_hex_digits:
  "digits16 n = map (\<lambda>d. ''0123456789abcdef'' ! d) (hex_digits n)"
proof (induction n rule: hex_digits.induct)
  case (1 n)
  show ?case
  proof (cases "n < 16")
    case True
    then show ?thesis by (simp add: hex_digits.simps [of n] digits16.simps [of n])
  next
    case False
    with "1.IH" show ?thesis by (simp add: hex_digits.simps [of n] digits16.simps [of n])
  qed
qed

lemma less_16_cases:
  "d < 16 \<Longrightarrow>
   d = 0 \<or> d = 1 \<or> d = 2 \<or> d = 3 \<or> d = 4 \<or> d = 5 \<or> d = 6 \<or> d = 7 \<or> d = 8 \<or>
   d = 9 \<or> d = 10 \<or> d = 11 \<or> d = 12 \<or> d = 13 \<or> d = 14 \<or> d = (15::nat)"
  by arith

lemma replace_char_hex:
  assumes "d < 16"
  shows "replace_char (''0123456789abcdef'' ! d) = [invite_alphabet ! d]"
  using less_16_cases [OF assms]
  by (elim disjE) (simp_all add: replace_char_def invite_alphabet_def)

lemma replace_digits16:
  "replace (digits16 n) = map (\<lambda>d. invite_alphabet ! d) (hex_digits n)"
proof -
  have "concat (map replace_char (map (\<lambda>d. ''0123456789abcdef'' ! d) ds)) =
        map (\<lambda>d. invite_alphabet ! d) ds" if "\<forall>d \<in> set ds. d < 16" for ds
    using that by (induction ds) (simp_all add: replace_char_hex)
  then show ?thesis
    by (simp add: replace_map digits16_hex_digits hex_digits_less)
qed

lemma getAccountID_nonneg: "0 \<le> getAccountID s"
  by (simp add: getAccountID_def get_def)

text \<open>
  C8. For every identifier whose account type is Invalid (0) or Individual (1), the
  invite-code render returns the hexadecimal digits of the account number (lowercase,
  unpadded), each replaced through the substitution table, with one hyphen after
  position \<open>length div 2\<close> when the result is longer than 3 and none otherwise; for the
  account number 78 (hex \<^verbatim>\<open>4e\<close>) it is \<^verbatim>\<open>gv\<close>.
\<close>

theorem renderSteamInvite_spec:
  assumes "getAccountType s = TypeInvalid \<or> getAccountType s = TypeIndividual"
  shows "renderSteamInvite s = Inr (spec_invite_code (nat (getAccountID s))) \<and>
         (getAccountID s = 78 \<longrightarrow> renderSteamInvite s = Inr ''gv'')"
proof -
  have code: "replace (toString16 (getAccountID s)) =
              map (\<lambda>d. invite_alphabet ! d) (hex_digits (nat (getAccountID s)))"
    using getAccountID_nonneg [of s] by (simp add: toString16_def replace_digits16)
  have main: "renderSteamInvite s = Inr (spec_invite_code (nat (getAccountID s)))"
    using assms
    by (auto simp add: renderSteamInvite_def spec_invite_code_def hyphenate_def Let_def code)
  have "spec_invite_code 78 = ''gv''"
    by (simp add: spec_invite_code_def hyphenate_def hex_digits.simps invite_alphabet_def)
  with main show ?thesis by simp
qed

theorem renderSteamInvite_spec_witness:
  "getAccountType \<lparr>data = 4503599627370574\<rparr> = TypeIndividual \<and>
   getAccountID \<lparr>data = 4503599627370574\<rparr> = 78 \<and>
   renderSteamInvite \<lparr>data = 4503599627370574\<rparr> = Inr ''gv'' \<and>
   spec_invite_code 78 = ''gv'' \<and>
   getAccountType \<lparr>data = 76561197960287930\<rparr> = TypeIndividual \<and>
   renderSteamInvite \<lparr>data = 76561197960287930\<rparr> = Inr ''hj-qp''"
proof -
  have t: "getAccountType \<lparr>data = 4503599627370574\<rparr> = 1"
    and a: "getAccountID \<lparr>data = 4503599627370574\<rparr> = 78"
    by (simp_all add: getter_defs get_def)
  have c1: "spec_invite_code 78 = ''gv''"
    by (simp add: spec_invite_code_def hyphenate_def hex_digits.simps invite_alphabet_def)
  have c2: "spec_invite_code 22202 = ''hj-qp''"
    by (simp add: spec_invite_code_def hyphenate_def hex_digits.simps invite_alphabet_def)
  show ?thesis
    using renderSteamInvite_spec [of "\<lparr>data = 4503599627370574\<rparr>"]
      renderSteamInvite_spec [of "\<lparr>data = 76561197960287930\<rparr>"]
    by (simp add: t a c1 c2 fields_gaben)
qed

section \<open>The range of the packed value\<close>

lemma fits_bits: "fits_uint64 s \<longleftrightarrow> (\<forall>n. bit (data s) n \<longrightarrow> n < 64)"
proof -
  have "fits_uint64 s \<longleftrightarrow> take_bit 64 (data s) = data s"
    unfolding fits_uint64_def by (simp add: take_bit_int_eq_self_iff)
  also have "\<dots> \<longleftrightarrow> (\<forall>n. bit (data s) n \<longrightarrow> n < 64)"
    by (auto simp add: bit_eq_iff bit_take_bit_iff)
  finally show ?thesis .
qed

lemma set_field_fits:
  "o1 + k1 \<le> 64 \<Longrightarrow> fits_uint64 s \<Longrightarrow> fits_uint64 (set_field o1 (mask k1) v s)"
  unfolding fits_bits set_field_def
  by (auto simp add: bit_simps)

lemma setAccountID_fits:
  "setAccountID v s = Inr s' \<Longrightarrow> fits_uint64 s \<Longrightarrow> fits_uint64 s'"
  unfolding setAccountID_def mask_numerals
  by (auto simp add: set_field_fits split: if_splits)

lemma setAccountInstance_fits:
  "setAccountInstance v s = Inr s' \<Longrightarrow> fits_uint64 s \<Longrightarrow> fits_uint64 s'"
  unfolding setAccountInstance_def mask_numerals
  by (auto simp add: set_field_fits split: if_splits)

lemma setAccountType_fits:
  "setAccountType v s = Inr s' \<Longrightarrow> fits_uint64 s \<Longrightarrow> fits_uint64 s'"
  unfolding setAccountType_def mask_numerals
  by (auto simp add: set_field_fits split: if_splits)

lemma setAccountUniverse_fits:
  "setAccountUniverse v s = Inr s' \<Longrightarrow> fits_uint64 s \<Longrightarrow> fits_uint64 s'"
  unfolding setAccountUniverse_def mask_numerals
  by (auto simp add: set_field_fits split: if_splits)

lemmas setter_fits =
  setAccountID_fits setAccountInstance_fits setAccountType_fits setAccountUniverse_fits

lemma fits_empty: "fits_uint64 \<lparr>data = 0\<rparr>"
  by (simp add: fits_uint64_def)

lemma andThen_Inr: "andThen r f = Inr y \<Longrightarrow> \<exists>x. r = Inr x \<and> f x = Inr y"
  by (cases r) (simp_all add: andThen_def)

lemma construct_steam2_fits:
  assumes "construct_steam2 u a i = Inr s"
  shows "fits_uint64 s"
proof -
  from assms obtain uv av where
    "andThen (setAccountUniverse uv \<lparr>data = 0\<rparr>) (\<lambda>s.
     andThen (setAccountInstance DesktopInstance s) (\<lambda>s.
     andThen (setAccountType TypeIndividual s) (\<lambda>s. setAccountID av s))) = Inr s"
    by (auto simp add: construct_steam2_def Let_def split: if_splits)
  then obtain s1 s2 s3 where
    "setAccountUniverse uv \<lparr>data = 0\<rparr> = Inr s1"
    "setAccountInstance DesktopInstance s1 = Inr s2"
    "setAccountType TypeIndividual s2 = Inr s3"
    "setAccountID av s3 = Inr s"
    by (blast dest: andThen_Inr)
  then show ?thesis
    using fits_empty by (blast intro: setter_fits)
qed

lemma steam3_chain_fits:
  assumes "andThen typed (\<lambda>s.
           andThen (setAccountUniverse uv s) (\<lambda>s.
           andThen (istep s) (\<lambda>s. setAccountID av s))) = Inr s"
    and "typed = Inr \<lparr>data = 0\<rparr> \<or> (\<exists>tv. typed = setAccountType tv \<lparr>data = 0\<rparr>)"
    and "\<And>x y. istep x = Inr y \<Longrightarrow> fits_uint64 x \<Longrightarrow> fits_uint64 y"
  shows "fits_uint64 s"
proof -
  from assms(1) obtain s1 s2 s3 where steps:
    "typed = Inr s1" "setAccountUniverse uv s1 = Inr s2"
    "istep s2 = Inr s3" "setAccountID av s3 = Inr s"
    by (blast dest: andThen_Inr)
  from assms(2) steps(1) have "fits_uint64 s1"
    using fits_empty by (auto intro: setter_fits)
  with steps(2) have "fits_uint64 s2"
    by (blast intro: setter_fits)
  with steps(3) have "fits_uint64 s3"
    by (rule assms(3))
  with steps(4) show ?thesis
    by (blast intro: setter_fits)
qed

lemma construct_steam3_fits:
  assumes "construct_steam3 t u i inst = Inr s"
  shows "fits_uint64 s"
  using assms
  apply (auto simp add: construct_steam3_def Let_def split: if_splits)
  apply ((erule steam3_chain_fits | (erule notE, erule steam3_chain_fits));
      auto split: option.splits intro: setter_fits)+
  done

text \<open>The value of a numeral: digit by digit, and its bounds.\<close>

lemma dec_foldl:
  "foldl (\<lambda>n c. 10 * n + digit_val c) a ds =
   a * 10 ^ length ds + foldl (\<lambda>n c. 10 * n + digit_val c) 0 ds"
proof (induction ds arbitrary: a)
  case Nil
  show ?case by simp
next
  case (Cons c cs)
  show ?case
    using Cons.IH [of "10 * a + digit_val c"] Cons.IH [of "digit_val c"]
    by (simp add: algebra_simps)
qed

lemma dec_value_Cons: "dec_value (c # cs) = digit_val c * 10 ^ length cs + dec_value cs"
  using dec_foldl [of "digit_val c" cs] by (simp add: dec_value_def)

lemma is_digit_val: "is_digit c \<Longrightarrow> digit_val c \<le> 9"
  by (auto simp add: is_digit_def digit_val_def)

lemma nonzero_digit_val: "c \<in> set ''123456789'' \<Longrightarrow> 1 \<le> digit_val c \<and> is_digit c"
  by (auto simp add: is_digit_def digit_val_def)

lemma dec_value_less: "list_all is_digit ds \<Longrightarrow> dec_value ds < 10 ^ length ds"
proof (induction ds)
  case Nil
  show ?case by (simp add: dec_value_def)
next
  case (Cons c cs)
  then have "digit_val c \<le> 9" and "dec_value cs < 10 ^ length cs"
    by (simp_all add: is_digit_val)
  then have "digit_val c * 10 ^ length cs + dec_value cs < 9 * 10 ^ length cs + 10 ^ length cs"
    by (meson add_le_less_mono mult_le_mono1)
  then show ?case by (simp add: dec_value_Cons)
qed

lemma match_numeric_range:
  assumes "match_numeric str"
  shows "0 < dec_value str \<and> dec_value str < 10 ^ 20"
proof -
  from assms obtain c cs where str: "str = c # cs" and c: "c \<in> set ''123456789''"
    and cs: "list_all is_digit cs" and len: "length cs \<le> 19"
    by (auto simp add: match_numeric_def split: list.splits)
  from c have d: "1 \<le> digit_val c" "is_digit c"
    using nonzero_digit_val by blast+
  then have "0 < digit_val c * 10 ^ length cs" by simp
  then have pos: "0 < dec_value str" by (simp add: str dec_value_Cons)
  from d cs have "dec_value str < 10 ^ length str"
    by (intro dec_value_less) (simp add: str)
  also from len have "(10::nat) ^ length str \<le> 10 ^ 20"
    by (intro power_increasing) (simp_all add: str)
  finally show ?thesis using pos by simp
qed

lemma isNumeric_pos: "isNumeric v \<Longrightarrow> 0 < BigInt v"
  using match_numeric_range by (cases v) auto

lemma isNumeric_string_less:
  assumes "isNumeric (VString str)"
  shows "BigInt (VString str) < 10 ^ 20"
proof -
  from assms have "dec_value str < 10 ^ 20"
    using match_numeric_range by simp
  then have "int (dec_value str) < int (10 ^ 20)"
    by (simp only: of_nat_less_iff)
  then show ?thesis by simp
qed

text \<open>
  C5, as the claim states it, fails: the string \<^verbatim>\<open>18446744073709551616\<close> matches
  \<^verbatim>\<open>^[1-9][0-9]{0,19}$\<close> and the constructor adopts its value, \<open>2^64\<close>, as the packed
  value.
\<close>

theorem numeric_string_exceeds_uint64:
  "construct (Some (VString ''18446744073709551616'')) = Inr \<lparr>data = 18446744073709551616\<rparr> \<and>
   \<not> fits_uint64 \<lparr>data = 18446744073709551616\<rparr>"
  by (simp add: construct_def parse_defs fits_uint64_def)

text \<open>
  C5, amended. After every successful construction with no input, from the legacy
  grammar or from the bracketed grammar, the packed value lies in \<open>[0, 2^64 - 1]\<close>, and
  every successful field setter keeps a packed value of that range in it. Construction
  from a plain numeric input and \<^verbatim>\<open>setFromUInt64\<close> adopt the value as it is: it is
  positive, and below \<open>10^20\<close> for a string matching \<^verbatim>\<open>^[1-9][0-9]{0,19}$\<close>.
\<close>

theorem packed_value_range:
  "(construct None = Inr s \<longrightarrow> fits_uint64 s) \<and>
   (match_steam2 (toString v2) = Some g2 \<longrightarrow> construct (Some v2) = Inr s2 \<longrightarrow>
      fits_uint64 s2) \<and>
   (match_steam2 (toString v3) = None \<longrightarrow> match_steam3 (toString v3) = Some g3 \<longrightarrow>
      construct (Some v3) = Inr s3 \<longrightarrow> fits_uint64 s3) \<and>
   (fits_uint64 t \<longrightarrow> setAccountID x1 t = Inr t1 \<longrightarrow> fits_uint64 t1) \<and>
   (fits_uint64 t \<longrightarrow> setAccountInstance x2 t = Inr t2 \<longrightarrow> fits_uint64 t2) \<and>
   (fits_uint64 t \<longrightarrow> setAccountType x3 t = Inr t3 \<longrightarrow> fits_uint64 t3) \<and>
   (fits_uint64 t \<longrightarrow> setAccountUniverse x4 t = Inr t4 \<longrightarrow> fits_uint64 t4) \<and>
   (match_steam2 (toString v4) = None \<longrightarrow> match_steam3 (toString v4) = None \<longrightarrow>
      construct (Some v4) = Inr s4 \<longrightarrow>
      data s4 = BigInt v4 \<and> 0 < data s4 \<and> (v4 = VString str4 \<longrightarrow> data s4 < 10 ^ 20)) \<and>
   (setFromUInt64 v5 t = Inr t5 \<longrightarrow>
      data t5 = BigInt v5 \<and> 0 < data t5 \<and> (v5 = VString str5 \<longrightarrow> data t5 < 10 ^ 20))"
proof -
  have a: "construct None = Inr s \<longrightarrow> fits_uint64 s"
    using fits_empty by (auto simp add: construct_def)
  have b: "match_steam2 (toString v2) = Some g2 \<longrightarrow> construct (Some v2) = Inr s2 \<longrightarrow>
      fits_uint64 s2"
    by (auto simp add: construct_def construct_steam2_fits split: prod.splits)
  have c: "match_steam2 (toString v3) = None \<longrightarrow> match_steam3 (toString v3) = Some g3 \<longrightarrow>
      construct (Some v3) = Inr s3 \<longrightarrow> fits_uint64 s3"
    by (auto simp add: construct_def construct_steam3_fits split: prod.splits)
  have d: "match_steam2 (toString v4) = None \<longrightarrow> match_steam3 (toString v4) = None \<longrightarrow>
      construct (Some v4) = Inr s4 \<longrightarrow>
      data s4 = BigInt v4 \<and> 0 < data s4 \<and> (v4 = VString str4 \<longrightarrow> data s4 < 10 ^ 20)"
    using isNumeric_pos [of v4] isNumeric_string_less [of str4]
    by (auto simp add: construct_def split: if_splits)
  have e: "setFromUInt64 v5 t = Inr t5 \<longrightarrow>
      data t5 = BigInt v5 \<and> 0 < data t5 \<and> (v5 = VString str5 \<longrightarrow> data t5 < 10 ^ 20)"
    using isNumeric_pos [of v5] isNumeric_string_less [of str5]
    by (auto simp add: setFromUInt64_def split: if_splits)
  show ?thesis
    using a b c d e setter_fits by blast
qed

theorem packed_value_range_witness:
  "construct None = Inr \<lparr>data = 0\<rparr> \<and> fits_uint64 \<lparr>data = 0\<rparr> \<and>
   match_steam2 ''STEAM_1:0:11101'' = Some (CHR ''1'', CHR ''0'', ''11101'') \<and>
   construct (Some (VString ''STEAM_1:0:11101'')) = Inr \<lparr>data = 76561197960287930\<rparr> \<and>
   fits_uint64 \<lparr>data = 76561197960287930\<rparr> \<and>
   match_steam2 ''[U:1:1:0]'' = None \<and>
   match_steam3 ''[U:1:1:0]'' = Some (CHR ''U'', CHR ''1'', ''1'', Some ''0'') \<and>
   construct (Some (VString ''[U:1:1:0]'')) = Inr \<lparr>data = 76561193665298433\<rparr> \<and>
   fits_uint64 \<lparr>data = 76561193665298433\<rparr> \<and>
   setAccountID 5 \<lparr>data = 76561197960287930\<rparr> = Inr \<lparr>data = 76561197960265733\<rparr> \<and>
   fits_uint64 \<lparr>data = 76561197960265733\<rparr> \<and>
   setAccountInstance 4 \<lparr>data = 76561197960287930\<rparr> = Inr \<lparr>data = 76561210845189818\<rparr> \<and>
   fits_uint64 \<lparr>data = 76561210845189818\<rparr> \<and>
   setAccountType 7 \<lparr>data = 76561197960287930\<rparr> = Inr \<lparr>data = 103582795724510906\<rparr> \<and>
   fits_uint64 \<lparr>data = 103582795724510906\<rparr> \<and>
   setAccountUniverse 2 \<lparr>data = 76561197960287930\<rparr> = Inr \<lparr>data = 148618791998215866\<rparr> \<and>
   fits_uint64 \<lparr>data = 148618791998215866\<rparr> \<and>
   match_steam2 ''18446744073709551616'' = None \<and>
   match_steam3 ''18446744073709551616'' = None \<and>
   construct (Some (VString ''18446744073709551616'')) = Inr \<lparr>data = 18446744073709551616\<rparr> \<and>
   setFromUInt64 (VString ''18446744073709551616'') \<lparr>data = 76561197960287930\<rparr> =
     Inr \<lparr>data = 18446744073709551616\<rparr> \<and>
   BigInt (VString ''18446744073709551616'') = 18446744073709551616 \<and>
   (18446744073709551616::int) < 10 ^ 20"
proof -
  have m: "match_steam2 ''STEAM_1:0:11101'' = Some (CHR ''1'', CHR ''0'', ''11101'')"
    "match_steam2 ''[U:1:1:0]'' = None"
    "match_steam3 ''[U:1:1:0]'' = Some (CHR ''U'', CHR ''1'', ''1'', Some ''0'')"
    "match_steam2 ''18446744073709551616'' = None"
    "match_steam3 ''18446744073709551616'' = None"
    by (simp_all add: parse_defs)
  have c: "construct (Some (VString ''STEAM_1:0:11101'')) = Inr \<lparr>data = 76561197960287930\<rparr>"
    "construct (Some (VString ''18446744073709551616'')) = Inr \<lparr>data = 18446744073709551616\<rparr>"
    by (simp_all add: construct_defs parse_defs setter_defs)
  have f: "setFromUInt64 (VString ''18446744073709551616'') \<lparr>data = 76561197960287930\<rparr> =
      Inr \<lparr>data = 18446744073709551616\<rparr>"
    by (simp add: setFromUInt64_def parse_defs)
  have t: "fits_uint64 \<lparr>data = 76561197960287930\<rparr>"
    by (simp add: fits_uint64_def)
  have s: "setAccountID 5 \<lparr>data = 76561197960287930\<rparr> = Inr \<lparr>data = 76561197960265733\<rparr>"
    "setAccountInstance 4 \<lparr>data = 76561197960287930\<rparr> = Inr \<lparr>data = 76561210845189818\<rparr>"
    "setAccountType 7 \<lparr>data = 76561197960287930\<rparr> = Inr \<lparr>data = 103582795724510906\<rparr>"
    "setAccountUniverse 2 \<lparr>data = 76561197960287930\<rparr> = Inr \<lparr>data = 148618791998215866\<rparr>"
    by (simp_all add: setter_defs set_field_def)
  show ?thesis
    using packed_value_range [where s = "\<lparr>data = 0\<rparr>"
        and ?v2.0 = "VString ''STEAM_1:0:11101''"
        and ?g2.0 = "(CHR ''1'', CHR ''0'', ''11101'')"
        and ?s2.0 = "\<lparr>data = 76561197960287930\<rparr>"
        and ?v3.0 = "VString ''[U:1:1:0]''"
        and ?g3.0 = "(CHR ''U'', CHR ''1'', ''1'', Some ''0'')"
        and ?s3.0 = "\<lparr>data = 76561193665298433\<rparr>"
        and t = "\<lparr>data = 76561197960287930\<rparr>"
        and ?x1.0 = 5 and ?t1.0 = "\<lparr>data = 76561197960265733\<rparr>"
        and ?x2.0 = 4 and ?t2.0 = "\<lparr>data = 76561210845189818\<rparr>"
        and ?x3.0 = 7 and ?t3.0 = "\<lparr>data = 103582795724510906\<rparr>"
        and ?x4.0 = 2 and ?t4.0 = "\<lparr>data = 148618791998215866\<rparr>"
        and ?v4.0 = "VString ''18446744073709551616''"
        and ?s4.0 = "\<lparr>data = 18446744073709551616\<rparr>"
        and ?str4.0 = "''18446744073709551616''"
        and ?v5.0 = "VString ''18446744073709551616''"
        and ?t5.0 = "\<lparr>data = 18446744073709551616\<rparr>"
        and ?str5.0 = "''18446744073709551616''"]
    by (simp add: m c f t s construct_null construct_U_1_1_0)
qed

section \<open>The legacy grammar and its round trip\<close>

text \<open>\<^verbatim>\<open>(accountID << 1) | authServer\<close> on numbers: the result is the 32-bit two's
  complement reading of \<open>2 * accountID + authServer\<close>.\<close>

lemma js_shl1_or:
  assumes "b < 2"
  shows "js_or (js_shl (int h) 1) (int b) = signed_take_bit 31 (int (2 * h + b))"
proof -
  have "(int (2 * h)) OR int b = int (2 * h + b)"
  proof (cases "b = 0")
    case True then show ?thesis by simp
  next
    case False
    with assms have "b = 1" by simp
    then show ?thesis by (simp add: or_one_eq)
  qed
  then have o: "(word_of_int (int (2 * h)) :: 32 word) OR word_of_int (int b) =
      word_of_int (int (2 * h + b))"
    by (simp only: word_wi_log_defs)
  have p: "push_bit 1 (word_of_int (int h) :: 32 word) = word_of_int (int (2 * h))"
    by (simp add: push_bit_eq_mult)
  have r: "word_of_int (sint w) = w" for w :: "32 word"
    by simp
  have "js_or (js_shl (int h) 1) (int b) = sint (word_of_int (int (2 * h + b)) :: 32 word)"
    by (simp only: js_or_def js_shl_def p r o)
  then show ?thesis
    by (simp only: sint_sbintrunc') simp
qed

lemma js_shl1_or_small:
  assumes "b < 2" "2 * h + b < 2 ^ 31"
  shows "js_or (js_shl (int h) 1) (int b) = int (2 * h + b)"
proof -
  have "int (2 * h + b) < 2 ^ 31"
    using assms(2) by (metis of_nat_less_iff of_nat_numeral of_nat_power)
  then have "signed_take_bit 31 (int (2 * h + b)) = int (2 * h + b)"
    by (intro signed_take_bit_int_eq_self) simp_all
  with assms(1) show ?thesis by (simp only: js_shl1_or)
qed

lemma js_shl1_or_large:
  assumes "b < 2" "2 ^ 31 \<le> 2 * h + b" "2 * h + b < 2 ^ 32"
  shows "js_or (js_shl (int h) 1) (int b) < 0"
proof -
  have "(2 * h + b) div 2 ^ 31 = 1"
    using assms(2,3) by (simp add: div_eq_dividend_iff Euclidean_Rings.div_nat_eqI)
  then have "bit (2 * h + b) 31"
    by (simp add: bit_iff_odd)
  then have "bit (int (2 * h + b)) 31"
    by (simp only: bit_of_nat_iff_bit)
  then have "signed_take_bit 31 (int (2 * h + b)) < 0"
    by (simp only: signed_take_bit_negative_iff)
  with assms(1) show ?thesis by (simp only: js_shl1_or)
qed

text \<open>Decimal numerals: \<open>digits10\<close> prints what \<open>dec_value\<close> reads, in the form the
  \<^verbatim>\<open>id\<close> group accepts.\<close>

lemma less_10_cases:
  "d < 10 \<Longrightarrow>
   d = 0 \<or> d = 1 \<or> d = 2 \<or> d = 3 \<or> d = 4 \<or> d = 5 \<or> d = 6 \<or> d = 7 \<or> d = 8 \<or> d = (9::nat)"
  by arith

lemma digit_char:
  assumes "d < 10"
  shows "is_digit (''0123456789'' ! d)" and "digit_val (''0123456789'' ! d) = d"
    and "0 < d \<Longrightarrow> ''0123456789'' ! d \<in> set ''123456789''"
  using less_10_cases [OF assms]
  by (elim disjE; simp add: is_digit_def digit_val_def)+

lemma dec_value_snoc: "dec_value (ds @ [c]) = 10 * dec_value ds + digit_val c"
  by (simp add: dec_value_def)

lemma dec_value_digits10: "dec_value (digits10 n) = n"
proof (induction n rule: digits10.induct)
  case (1 n)
  show ?case
  proof (cases "n < 10")
    case True
    then show ?thesis
      by (simp add: digits10.simps [of n] dec_value_def digit_char)
  next
    case False
    with "1.IH" show ?thesis
      by (simp add: digits10.simps [of n] dec_value_snoc digit_char)
  qed
qed

lemma digits10_digits: "list_all is_digit (digits10 n)"
proof (induction n rule: digits10.induct)
  case (1 n)
  show ?case
  proof (cases "n < 10")
    case True
    then show ?thesis by (simp add: digits10.simps [of n] digit_char)
  next
    case False
    with "1.IH" show ?thesis by (simp add: digits10.simps [of n] digit_char)
  qed
qed

lemma digits10_hd: "0 < n \<Longrightarrow> digits10 n \<noteq> [] \<and> hd (digits10 n) \<in> set ''123456789''"
proof (induction n rule: digits10.induct)
  case (1 n)
  show ?case
  proof (cases "n < 10")
    case True
    with "1.prems" show ?thesis by (simp add: digits10.simps [of n] digit_char del: set_simps)
  next
    case False
    then have "0 < n div 10" by simp
    with False "1.IH" show ?thesis by (simp add: digits10.simps [of n] del: set_simps)
  qed
qed

lemma digits10_length: "n < 10 ^ Suc k \<Longrightarrow> length (digits10 n) \<le> Suc k"
proof (induction k arbitrary: n)
  case 0
  then show ?case by (simp add: digits10.simps [of n])
next
  case (Suc k)
  show ?case
  proof (cases "n < 10")
    case True
    then show ?thesis by (simp add: digits10.simps [of n])
  next
    case False
    from Suc.prems have "n div 10 < 10 ^ Suc k"
      by (simp add: less_mult_imp_div_less)
    then have "length (digits10 (n div 10)) \<le> Suc k" by (rule Suc.IH)
    with False show ?thesis by (simp add: digits10.simps [of n])
  qed
qed

lemma is_id_digits10:
  assumes "n < 10 ^ 10"
  shows "is_id (digits10 n)"
proof (cases "n = 0")
  case True
  then show ?thesis by (simp add: is_id_def digits10.simps)
next
  case False
  then obtain c cs where ccs: "digits10 n = c # cs" and c: "c \<in> set ''123456789''"
    using digits10_hd [of n] by (cases "digits10 n") auto
  from assms have "length (digits10 n) \<le> 10"
    using digits10_length [of n 9] by simp
  moreover have "list_all is_digit (digits10 n)" by (rule digits10_digits)
  ultimately show ?thesis
    using c by (simp add: is_id_def ccs del: set_simps)
qed

lemma match_steam2_legacy_string:
  assumes "u \<le> 4" "a div 2 < 10 ^ 10"
  shows "match_steam2 (legacy_string u a) =
         Some (''0123456789'' ! u, ''0123456789'' ! (a mod 2), digits10 (a div 2))"
proof -
  have "u = 0 \<or> u = 1 \<or> u = 2 \<or> u = 3 \<or> u = 4"
    using assms(1) by arith
  then have u: "''0123456789'' ! u \<in> set ''01234''"
    by (elim disjE) simp_all
  have "a mod 2 = 0 \<or> a mod 2 = 1"
    by arith
  then have b: "''0123456789'' ! (a mod 2) \<in> set ''01''"
    by (elim disjE) simp_all
  have du: "digits10 u = [''0123456789'' ! u]"
    using assms(1) by (simp add: digits10.simps [of u])
  have "a mod 2 < 10" by arith
  then have db: "digits10 (a mod 2) = [''0123456789'' ! (a mod 2)]"
    by (simp only: digits10.simps [of "a mod 2"] if_True)
  show ?thesis
    using u b is_id_digits10 [OF assms(2)]
    by (simp add: legacy_string_def match_steam2_def du db del: set_simps)
qed

lemma js_string_of_int_nat: "js_string_of_int (int n) = digits10 n"
  by (simp add: js_string_of_int_def)

lemma dec_value_single: "dec_value [c] = digit_val c"
  by (simp add: dec_value_def)

lemma and_mask_nat: "n < 2 ^ k \<Longrightarrow> int n AND mask k = int n"
proof -
  assume "n < 2 ^ k"
  then have "int n < 2 ^ k"
    by (metis of_nat_less_iff of_nat_numeral of_nat_power)
  then have "take_bit k (int n) = int n"
    by (simp add: take_bit_int_eq_self)
  then show ?thesis by (simp add: take_bit_eq_mask)
qed

lemma legacy_state_fields:
  assumes "u < 2 ^ 8" "a < 2 ^ 32"
  shows "getAccountType (legacy_state u a) = 1"
    and "getAccountUniverse (legacy_state u a) = int u"
    and "getAccountID (legacy_state u a) = int a"
    and "getAccountInstance (legacy_state u a) = 1"
proof -
  have one: "(1::int) AND mask 4 = 1" "(1::int) AND mask 20 = 1"
    using and_mask_nat [of 1 4] and_mask_nat [of 1 20] by simp_all
  show "getAccountType (legacy_state u a) = 1"
    unfolding getAccountType_def legacy_state_def mask_numerals
    by (simp add: get_set_field_other get_set_field_same one)
  show "getAccountUniverse (legacy_state u a) = int u"
    unfolding getAccountUniverse_def legacy_state_def mask_numerals
    using assms(1) by (simp add: get_set_field_other get_set_field_same and_mask_nat)
  show "getAccountID (legacy_state u a) = int a"
    unfolding getAccountID_def legacy_state_def mask_numerals
    using assms(2) by (simp add: get_set_field_same and_mask_nat)
  show "getAccountInstance (legacy_state u a) = 1"
    unfolding getAccountInstance_def legacy_state_def mask_numerals
    by (simp add: get_set_field_other get_set_field_same one)
qed

lemma construct_steam2_digits:
  assumes "1 \<le> u" "u \<le> 4" "a < 2 ^ 32"
  shows "construct_steam2 (''0123456789'' ! u) (''0123456789'' ! (a mod 2)) (digits10 (a div 2)) =
         (let accountID = js_or (js_shl (int (a div 2)) 1) (int (a mod 2)) in
          if accountID < 0 then Inl AccountIDTooHigh
          else Inr (set_field 0 4294967295 accountID (set_field 52 15 1 (set_field 32 1048575 1
            (set_field 56 255 (int u) \<lparr>data = 0\<rparr>)))))"
proof -
  define cu where "cu = ''0123456789'' ! u"
  define cb where "cb = ''0123456789'' ! (a mod 2)"
  have "a mod 2 < 10" by arith
  with assms(2) have dv: "digit_val cu = u" "digit_val cb = a mod 2"
    unfolding cu_def cb_def by (simp_all only: digit_char(2))
  have h: "a div 2 < 4294967295"
    using assms(3) by simp
  have le: "\<not> 4294967295 < js_or x y" for x y
  proof -
    have "sint w < 2 ^ 31" for w :: "32 word"
      using sint_lt [of w] by simp
    then have "js_or x y < 2 ^ 31"
      unfolding js_or_def by blast
    then show ?thesis by simp
  qed
  have "construct_steam2 cu cb (digits10 (a div 2)) =
         (let accountID = js_or (js_shl (int (a div 2)) 1) (int (a mod 2)) in
          if accountID < 0 then Inl AccountIDTooHigh
          else Inr (set_field 0 4294967295 accountID (set_field 52 15 1 (set_field 32 1048575 1
            (set_field 56 255 (int u) \<lparr>data = 0\<rparr>)))))"
    using assms(1,2) h
    by (simp add: construct_steam2_def dec_value_digits10 dec_value_single dv
        andThen_def setter_defs Let_def le)
  then show ?thesis
    unfolding cu_def cb_def .
qed

lemma construct_legacy_string:
  assumes "1 \<le> u" "u \<le> 4" "a < 2 ^ 32"
  shows "construct (Some (VString (legacy_string u a))) =
         (let accountID = js_or (js_shl (int (a div 2)) 1) (int (a mod 2)) in
          if accountID < 0 then Inl AccountIDTooHigh
          else Inr (set_field 0 4294967295 accountID (set_field 52 15 1 (set_field 32 1048575 1
            (set_field 56 255 (int u) \<lparr>data = 0\<rparr>)))))"
proof -
  from assms(3) have "a div 2 < 10 ^ 10" by simp
  with assms(2) have "match_steam2 (legacy_string u a) =
      Some (''0123456789'' ! u, ''0123456789'' ! (a mod 2), digits10 (a div 2))"
    by (rule match_steam2_legacy_string)
  then show ?thesis
    by (simp add: construct_def construct_steam2_digits [OF assms])
qed

lemma legacy_round_trip_below_2_31:
  assumes "1 \<le> u" "u \<le> 4" "a < 2 ^ 31"
  shows "construct (Some (VString (legacy_string u a))) = Inr (legacy_state u a) \<and>
         renderSteam2 (legacy_state u a) = legacy_string u a"
proof -
  have a32: "a < 2 ^ 32" using assms(3) by simp
  have "2 * (a div 2) + a mod 2 = a" by simp
  with assms(3) have "js_or (js_shl (int (a div 2)) 1) (int (a mod 2)) = int a"
    using js_shl1_or_small [of "a mod 2" "a div 2"] by simp
  then have c: "construct (Some (VString (legacy_string u a))) = Inr (legacy_state u a)"
    by (simp add: construct_legacy_string [OF assms(1,2) a32] legacy_state_def)
  have u8: "u < 2 ^ 8" using assms(2) by simp
  have "int a AND 1 = int (a mod 2)"
    by (simp add: and_one_eq zmod_int)
  moreover have "drop_bit 1 (int a) = int (a div 2)"
    by (simp add: drop_bit_eq_div zdiv_int)
  ultimately have "renderSteam2 (legacy_state u a) = legacy_string u a"
    by (simp add: renderSteam2_def legacy_state_fields [OF u8 a32] legacy_string_def
        js_string_of_int_nat)
  with c show ?thesis by simp
qed

lemma legacy_construct_fails_from_2_31:
  assumes "1 \<le> u" "u \<le> 4" "2 ^ 31 \<le> a" "a < 2 ^ 32"
  shows "construct (Some (VString (legacy_string u a))) = Inl AccountIDTooHigh"
proof -
  have "2 * (a div 2) + a mod 2 = a" by simp
  with assms(3,4) have "js_or (js_shl (int (a div 2)) 1) (int (a mod 2)) < 0"
    using js_shl1_or_large [of "a mod 2" "a div 2"] by simp
  then show ?thesis
    by (simp add: construct_legacy_string [OF assms(1,2,4)])
qed

text \<open>
  C4. The claim: for every account number \<open>a\<close> in \<open>[1, 2^32 - 2]\<close> and universe \<open>u\<close> in
  \<open>[1, 4]\<close>, constructing from \<^verbatim>\<open>STEAM_{u}:{a&1}:{a>>1}\<close> succeeds and the legacy render
  gives the string back. The code does so below \<open>2^31\<close> only
  (\<open>legacy_round_trip_below_2_31\<close>). From \<open>2^31\<close> on, the 32-bit shift of
  \<^verbatim>\<open>(accountID << 1) | authServer\<close> yields a negative number and \<^verbatim>\<open>setAccountID\<close>
  throws (\<open>legacy_construct_fails_from_2_31\<close>): for \<open>a = 2^31\<close>, \<open>u = 1\<close> the string is
  \<^verbatim>\<open>STEAM_1:0:1073741824\<close>, for \<open>a = 2^32 - 2\<close>, \<open>u = 4\<close> it is \<^verbatim>\<open>STEAM_4:0:2147483647\<close>, and
  the constructor throws on both.
\<close>

theorem legacy_construct_throws_at_2_31:
  "legacy_string 1 2147483648 = ''STEAM_1:0:1073741824'' \<and>
   construct (Some (VString ''STEAM_1:0:1073741824'')) = Inl AccountIDTooHigh \<and>
   legacy_string 4 4294967294 = ''STEAM_4:0:2147483647'' \<and>
   construct (Some (VString ''STEAM_4:0:2147483647'')) = Inl AccountIDTooHigh"
proof -
  have "legacy_string 1 2147483648 = ''STEAM_1:0:1073741824''"
    "legacy_string 4 4294967294 = ''STEAM_4:0:2147483647''"
    by (simp_all add: legacy_string_def digits10.simps)
  moreover have "construct (Some (VString ''STEAM_1:0:1073741824'')) = Inl AccountIDTooHigh"
    "construct (Some (VString ''STEAM_4:0:2147483647'')) = Inl AccountIDTooHigh"
    by (simp_all add: construct_defs parse_defs setter_defs)
  ultimately show ?thesis by simp
qed

section \<open>Inputs no grammar accepts\<close>

text \<open>
  The type characters \<^verbatim>\<open>c\<close> and \<^verbatim>\<open>L\<close> are in the character class of the bracketed
  grammar, but the constructor never builds an identifier from them: whatever the other
  groups are, it throws.
\<close>

lemma clan_chat_never_constructed:
  assumes "t = CHR ''c'' \<or> t = CHR ''L''"
  shows "construct_steam3 t u i inst = Inl ExceedsUInt32 \<or>
         construct_steam3 t u i inst = Inl AccountUniverseTooHigh \<or>
         construct_steam3 t u i inst = Inl AccountInstanceTooHigh"
  using assms
  by (auto simp add: construct_steam3_def Let_def andThen_def setter_defs)

text \<open>
  The decimal numeral of a number or a BigInt starts with a digit or a minus sign, so
  it matches neither the legacy nor the bracketed grammar: such an input is decided by
  \<^verbatim>\<open>isNumeric\<close> alone.
\<close>

lemma digits10_not_Nil: "digits10 n \<noteq> []"
  by (subst digits10.simps) simp

lemma js_string_of_int_hd:
  "\<exists>c cs. js_string_of_int n = c # cs \<and> (c = CHR ''-'' \<or> is_digit c)"
proof (cases "n < 0")
  case True
  then show ?thesis by (simp add: js_string_of_int_def)
next
  case False
  obtain c cs where "digits10 (nat n) = c # cs"
    using digits10_not_Nil [of "nat n"] by (cases "digits10 (nat n)") auto
  moreover from this have "is_digit c"
    using digits10_digits [of "nat n"] by simp
  ultimately show ?thesis
    using False by (simp add: js_string_of_int_def)
qed

lemma numeral_matches_no_grammar:
  "match_steam2 (js_string_of_int n) = None \<and> match_steam3 (js_string_of_int n) = None"
proof -
  obtain c cs where s: "js_string_of_int n = c # cs" and c: "c = CHR ''-'' \<or> is_digit c"
    using js_string_of_int_hd by blast
  from c have "c \<noteq> CHR ''S''" "c \<noteq> CHR ''[''"
    by (auto simp add: is_digit_def)
  then show ?thesis
    by (simp add: s match_steam2_def match_steam3_def split: list.splits)
qed

lemma construct_number:
  "construct (Some (VNumber n)) = (if 0 < n then Inr \<lparr>data = n\<rparr> else Inl InvalidSteamID)"
  "construct (Some (VBigInt n)) = (if 0 < n then Inr \<lparr>data = n\<rparr> else Inl InvalidSteamID)"
  by (simp_all add: construct_def numeral_matches_no_grammar)

end
